theory Spec2Isabelle
  imports
    Main
    "HOL-Library.Product_Lexorder"
    "HOL-Library.Char_ord"
    "HOL-Library.List_Lexorder"
begin

section \<open>JavaScript strings\<close>

text \<open>
  Strings are character lists. The case conversions are the ASCII part of
  \<^verbatim>\<open>String.prototype.toLowerCase\<close> and \<^verbatim>\<open>toUpperCase\<close>; every other
  character is left as it is.
\<close>

definition toLowerChar :: "char \<Rightarrow> char" where
  "toLowerChar c =
     (case map_of (zip ''ABCDEFGHIJKLMNOPQRSTUVWXYZ'' ''abcdefghijklmnopqrstuvwxyz'') c of
        Some d \<Rightarrow> d
      | None \<Rightarrow> c)"

definition toUpperChar :: "char \<Rightarrow> char" where
  "toUpperChar c =
     (case map_of (zip ''abcdefghijklmnopqrstuvwxyz'' ''ABCDEFGHIJKLMNOPQRSTUVWXYZ'') c of
        Some d \<Rightarrow> d
      | None \<Rightarrow> c)"

definition toLowerCase :: "string \<Rightarrow> string" where
  "toLowerCase s = map toLowerChar s"

definition toUpperCase :: "string \<Rightarrow> string" where
  "toUpperCase s = map toUpperChar s"

text \<open>\<^verbatim>\<open>s.startsWith(t)\<close> and \<^verbatim>\<open>s.includes(t)\<close>.\<close>

fun startsWith :: "string \<Rightarrow> string \<Rightarrow> bool" where
  "startsWith s [] = True"
| "startsWith [] (t # ts) = False"
| "startsWith (c # s) (t # ts) = (c = t \<and> startsWith s ts)"

fun includesStr :: "string \<Rightarrow> string \<Rightarrow> bool" where
  "includesStr [] t = (t = [])"
| "includesStr (c # s) t = (startsWith (c # s) t \<or> includesStr s t)"

text \<open>\<^verbatim>\<open>s.substring(1)\<close>.\<close>

definition substring1 :: "string \<Rightarrow> string" where
  "substring1 s = drop 1 s"

text \<open>\<^verbatim>\<open>s.split('/')\<close>: always at least one piece.\<close>

fun splitSlash :: "string \<Rightarrow> string list" where
  "splitSlash [] = [[]]"
| "splitSlash (c # cs) =
     (if c = CHR ''/'' then [] # splitSlash cs
      else (case splitSlash cs of
              [] \<Rightarrow> [[c]]
            | p # ps \<Rightarrow> (c # p) # ps))"

text \<open>\<^verbatim>\<open>parts.join('/')\<close>.\<close>

fun joinSlash :: "string list \<Rightarrow> string" where
  "joinSlash [] = []"
| "joinSlash [p] = p"
| "joinSlash (p # q # ps) = p @ ''/'' @ joinSlash (q # ps)"

text \<open>
  The values of a JavaScript \<^verbatim>\<open>Set\<close> in insertion order: \<^verbatim>\<open>add\<close> keeps the
  first occurrence of a value and ignores every later one. (\<^const>\<open>remdups\<close> keeps the last
  occurrence, so it is not used.)
\<close>

fun setAdd :: "'a list \<Rightarrow> 'a list \<Rightarrow> 'a list" where
  "setAdd acc [] = acc"
| "setAdd acc (x # xs) = setAdd (if x \<in> set acc then acc else acc @ [x]) xs"

definition newSet :: "'a list \<Rightarrow> 'a list" where
  "newSet xs = setAdd [] xs"

section \<open>Node's path module (POSIX variant)\<close>

text \<open>
  The extension uses \<^verbatim>\<open>path.basename\<close>, \<^verbatim>\<open>path.extname\<close>, \<^verbatim>\<open>path.dirname\<close>,
  \<^verbatim>\<open>path.isAbsolute\<close> and \<^verbatim>\<open>path.join\<close>. They are library functions; the definitions
  below follow the POSIX implementation of Node.
\<close>

definition stripTrailingSlashes :: "string \<Rightarrow> string" where
  "stripTrailingSlashes p = rev (dropWhile (\<lambda>c. c = CHR ''/'') (rev p))"

definition basename :: "string \<Rightarrow> string" where
  "basename p = rev (takeWhile (\<lambda>c. c \<noteq> CHR ''/'') (rev (stripTrailingSlashes p)))"

text \<open>
  \<^verbatim>\<open>path.extname\<close>: from the last dot of the basename to its end; empty when the
  basename has no dot, when its only dot is its first character, and for \<^verbatim>\<open>..\<close>.
\<close>

definition extname :: "string \<Rightarrow> string" where
  "extname p =
     (let b = basename p;
          suffix = rev (takeWhile (\<lambda>c. c \<noteq> CHR ''.'') (rev b));
          startDot = length b - length suffix - 1
      in if CHR ''.'' \<notin> set b \<or> startDot = 0 \<or> b = ''..'' then []
         else CHR ''.'' # suffix)"

definition isAbsolute :: "string \<Rightarrow> bool" where
  "isAbsolute p = (case p of [] \<Rightarrow> False | c # _ \<Rightarrow> c = CHR ''/'')"

definition dirname :: "string \<Rightarrow> string" where
  "dirname p =
     (if p = [] then ''.''
      else let hasRoot = (hd p = CHR ''/'');
               afterName = dropWhile (\<lambda>c. c \<noteq> CHR ''/'')
                             (dropWhile (\<lambda>c. c = CHR ''/'') (rev (tl p)));
               end = length afterName
           in if afterName = [] then (if hasRoot then ''/'' else ''.'')
              else if hasRoot \<and> end = 1 then ''//''
              else take end p)"

text \<open>
  \<^verbatim>\<open>normalizeString\<close>: the segments of a path are pushed on a stack; empty segments and
  \<^verbatim>\<open>.\<close> are skipped, \<^verbatim>\<open>..\<close> pops the last segment unless there is none or it is
  \<^verbatim>\<open>..\<close> itself, in which case it is kept for a relative path and dropped for an
  absolute one.
\<close>

fun normalizeSegments :: "bool \<Rightarrow> string list \<Rightarrow> string list \<Rightarrow> string list" where
  "normalizeSegments allowAboveRoot res [] = rev res"
| "normalizeSegments allowAboveRoot res (s # ss) =
     (if s = [] \<or> s = ''.'' then normalizeSegments allowAboveRoot res ss
      else if s = ''..'' then
        (case res of
           t # ts \<Rightarrow>
             (if t \<noteq> ''..'' then normalizeSegments allowAboveRoot ts ss
              else normalizeSegments allowAboveRoot
                     (if allowAboveRoot then s # res else res) ss)
         | [] \<Rightarrow> normalizeSegments allowAboveRoot
                   (if allowAboveRoot then [s] else []) ss)
      else normalizeSegments allowAboveRoot (s # res) ss)"

definition normalize :: "string \<Rightarrow> string" where
  "normalize p =
     (if p = [] then ''.''
      else let isAbs = (hd p = CHR ''/'');
               trailingSeparator = (last p = CHR ''/'');
               q = joinSlash (normalizeSegments (\<not> isAbs) [] (splitSlash p))
           in if q = [] then (if isAbs then ''/'' else if trailingSeparator then ''./'' else ''.'')
              else (if isAbs then ''/'' else []) @ q @ (if trailingSeparator then ''/'' else []))"

text \<open>\<^verbatim>\<open>path.join(a, b)\<close>: empty arguments are skipped.\<close>

definition join :: "string \<Rightarrow> string \<Rightarrow> string" where
  "join a b =
     (if a = [] \<and> b = [] then ''.''
      else if a = [] then normalize b
      else if b = [] then normalize a
      else normalize (a @ ''/'' @ b))"

section \<open>The mention extractor\<close>

text \<open>
  \<^verbatim>\<open>_extractFileReferences\<close> runs the global regular expression
  \<^verbatim>\<open>/@([a-zA-Z0-9./_-]+(?:\.(js|jsx|ts|tsx|css|scss|json|html))?)/g\<close> over the text.
  The character class contains the dot and its repetition is greedy, so capture group 1
  is the longest run of class characters after an \<^verbatim>\<open>@\<close>; the optional extension
  group can only start at a dot, which the run has already taken. An \<^verbatim>\<open>@\<close> with no
  class character after it matches nothing. The search resumes after each match.
\<close>

definition isRefChar :: "char \<Rightarrow> bool" where
  "isRefChar c \<longleftrightarrow>
     c \<in> set ''abcdefghijklmnopqrstuvwxyzABCDEFGHIJKLMNOPQRSTUVWXYZ0123456789./_-''"

function execAll :: "string \<Rightarrow> string list" where
  "execAll [] = []"
| "execAll (c # cs) =
     (if c = CHR ''@'' \<and> takeWhile isRefChar cs \<noteq> []
      then takeWhile isRefChar cs # execAll (dropWhile isRefChar cs)
      else execAll cs)"
  by pat_completeness auto
termination
  by (relation "measure length") (auto simp: length_dropWhile_le le_imp_less_Suc)

text \<open>\<^verbatim>\<open>match[1].replace(/[.,;!?]*$/, '')\<close> removes the trailing run of these characters.\<close>

definition isTrailingPunct :: "char \<Rightarrow> bool" where
  "isTrailingPunct c \<longleftrightarrow> c \<in> set ''.,;!?''"

definition cleanPath :: "string \<Rightarrow> string" where
  "cleanPath m = rev (dropWhile isTrailingPunct (rev m))"

definition extractFileReferences :: "string \<Rightarrow> string list" where
  "extractFileReferences text = newSet (map cleanPath (execAll text))"

section \<open>The editor, the file system and the generation service\<close>

text \<open>
  A thrown value is either an \<^verbatim>\<open>Error\<close> with its message or something else; the
  handlers print \<^verbatim>\<open>error instanceof Error ? error.message : 'Unknown error'\<close>.
\<close>

datatype error = Error string | NotAnError

definition errorMessage :: "error \<Rightarrow> string" where
  "errorMessage err = (case err of Error m \<Rightarrow> m | NotAnError \<Rightarrow> ''Unknown error'')"

text \<open>
  Everything the two classes ask of their surroundings. A \<^verbatim>\<open>vscode.Uri\<close> is
  represented by its \<^verbatim>\<open>fsPath\<close>.
  \<^item> \<open>workspaceFolders\<close>: \<^verbatim>\<open>vscode.workspace.workspaceFolders\<close>, \<^verbatim>\<open>undefined\<close> or the
    roots in their fixed order;
  \<^item> \<open>findFiles\<close>: \<^verbatim>\<open>vscode.workspace.findFiles(include, exclude, maxResults)\<close>, the hits or
    a rejection;
  \<^item> \<open>asRelativePath\<close>: \<^verbatim>\<open>vscode.workspace.asRelativePath\<close>;
  \<^item> \<open>access\<close>: whether \<^verbatim>\<open>fs.promises.access\<close> resolves;
  \<^item> \<open>openTextDocument\<close>: the text of \<^verbatim>\<open>vscode.workspace.openTextDocument(p)\<close>, or its
    rejection;
  \<^item> \<open>statSync\<close>: size and \<^verbatim>\<open>mtime.toLocaleDateString()\<close> of \<^verbatim>\<open>fs.statSync(p)\<close>,
    \<open>None\<close> when it throws;
  \<^item> \<open>callAI\<close>: the request to the language-model endpoint;
  \<^item> \<open>logIndex\<close>: the value of \<^verbatim>\<open>Math.floor(Math.log(bytes) / Math.log(1024))\<close> for a
    positive byte count, as the engine computes it in double precision. The language
    leaves the precision of \<^verbatim>\<open>Math.log\<close> to the engine, so the value is not derived
    here.
\<close>

record env =
  workspaceFolders :: "string list option"
  findFiles :: "string \<Rightarrow> string option \<Rightarrow> nat option \<Rightarrow> error + string list"
  asRelativePath :: "string \<Rightarrow> string"
  access :: "string \<Rightarrow> bool"
  openTextDocument :: "string \<Rightarrow> error + string"
  statSync :: "string \<Rightarrow> (nat \<times> string) option"
  callAI :: "string \<Rightarrow> error + string"
  logIndex :: "nat \<Rightarrow> nat"

text \<open>
  \<^verbatim>\<open>Promise.all(xs.map(f))\<close>: every result, or a rejection when one of the calls is
  rejected. When several are rejected the model reports the first in list order.
\<close>

fun promiseAll :: "('a \<Rightarrow> error + 'b) \<Rightarrow> 'a list \<Rightarrow> error + 'b list" where
  "promiseAll f [] = Inr []"
| "promiseAll f (x # xs) =
     (case f x of
        Inl err \<Rightarrow> Inl err
      | Inr y \<Rightarrow> (case promiseAll f xs of Inl err \<Rightarrow> Inl err | Inr ys \<Rightarrow> Inr (y # ys)))"

text \<open>
  \<^verbatim>\<open>Array.prototype.sort(cmp)\<close> is stable: an element goes before the first element it
  does not compare greater than, so elements that compare equal keep their order.
\<close>

fun insertBy :: "('a \<Rightarrow> 'a \<Rightarrow> int) \<Rightarrow> 'a \<Rightarrow> 'a list \<Rightarrow> 'a list" where
  "insertBy cmp x [] = [x]"
| "insertBy cmp x (y # ys) = (if cmp x y \<le> 0 then x # y # ys else y # insertBy cmp x ys)"

definition arraySort :: "('a \<Rightarrow> 'a \<Rightarrow> int) \<Rightarrow> 'a list \<Rightarrow> 'a list" where
  "arraySort cmp xs = foldr (insertBy cmp) xs []"

section \<open>ChatPanelProvider\<close>

subsection \<open>Resolving mentions\<close>

definition findFilesInWorkspace :: "env \<Rightarrow> string \<Rightarrow> error + string list" where
  "findFilesInWorkspace e query =
     findFiles e (''**/'' @ query) (Some ''**/node_modules/**'') (Some 5)"

text \<open>
  The callback of \<^verbatim>\<open>fileReferences.map\<close>: \<^verbatim>\<open>files[0]?.fsPath\<close>, and \<^verbatim>\<open>undefined\<close>
  when the search is rejected.
\<close>

definition resolveReference :: "env \<Rightarrow> string \<Rightarrow> string option" where
  "resolveReference e ref =
     (case findFilesInWorkspace e ref of
        Inl err \<Rightarrow> None
      | Inr files \<Rightarrow> (case files of [] \<Rightarrow> None | file # _ \<Rightarrow> Some file))"

text \<open>\<^verbatim>\<open>.filter(filePath => !!filePath)\<close> drops \<^verbatim>\<open>undefined\<close> and the empty string.\<close>

definition resolvedFiles :: "env \<Rightarrow> string list \<Rightarrow> string list" where
  "resolvedFiles e fileReferences =
     filter (\<lambda>filePath. filePath \<noteq> []) (List.map_filter (resolveReference e) fileReferences)"

subsection \<open>Language tags\<close>

definition langMap :: "(string \<times> string) list" where
  "langMap =
     [(''.js'', ''JavaScript''), (''.jsx'', ''JSX''), (''.ts'', ''TypeScript''),
      (''.tsx'', ''TSX''), (''.css'', ''CSS''), (''.scss'', ''SCSS''),
      (''.html'', ''HTML''), (''.json'', ''JSON'')]"

definition getFileLanguage :: "string \<Rightarrow> string" where
  "getFileLanguage filePath =
     (let ext = toLowerCase (extname filePath)
      in case map_of langMap ext of
           Some lang \<Rightarrow> lang
         | None \<Rightarrow> toUpperCase (substring1 ext))"

subsection \<open>Reading a file\<close>

definition panel_isImageFile :: "string \<Rightarrow> bool" where
  "panel_isImageFile filePath \<longleftrightarrow>
     toLowerCase (extname filePath) \<in> set [''.png'', ''.jpg'', ''.jpeg'', ''.gif'', ''.bmp'', ''.svg'']"

text \<open>
  \<^verbatim>\<open>_readFileContent\<close>. A relative path is joined to the first workspace folder; with an
  empty folder list \<^verbatim>\<open>workspaceFolders[0].uri\<close> throws a \<^verbatim>\<open>TypeError\<close>.
\<close>

definition typeErrorMessage :: string where
  "typeErrorMessage = ''Cannot read properties of undefined''"

definition panel_readFileContent :: "env \<Rightarrow> string \<Rightarrow> error + string" where
  "panel_readFileContent e filePath =
     (case workspaceFolders e of
        None \<Rightarrow> Inl (Error ''No workspace folder'')
      | Some folders \<Rightarrow>
          if \<not> isAbsolute filePath \<and> folders = [] then Inl (Error typeErrorMessage)
          else
            let fullPath = (if isAbsolute filePath then filePath
                            else join (hd folders) filePath)
            in if panel_isImageFile filePath
               then Inr (''[Image file: '' @ basename filePath @ '']'')
               else openTextDocument e fullPath)"

subsection \<open>Assembling the prompt\<close>

text \<open>
  \<^verbatim>\<open>_handleChatMessage\<close>, in its steps. An entry of \<^verbatim>\<open>fileContents\<close> is the pair of
  its \<^verbatim>\<open>path\<close> and its \<^verbatim>\<open>content\<close>.
\<close>

definition fileReferencesOf :: "string \<Rightarrow> string list" where
  "fileReferencesOf text = filter (\<lambda>ref. length ref > 0) (extractFileReferences text)"

definition allFilesOf :: "env \<Rightarrow> string \<Rightarrow> string list \<Rightarrow> string list" where
  "allFilesOf e text attachedFiles =
     newSet (attachedFiles @ resolvedFiles e (fileReferencesOf text))"

definition readFileEntry :: "env \<Rightarrow> string \<Rightarrow> error + (string \<times> string)" where
  "readFileEntry e filePath =
     (case panel_readFileContent e filePath of
        Inl err \<Rightarrow> Inl err
      | Inr content \<Rightarrow> Inr (asRelativePath e filePath, content))"

definition fileBlock :: "string \<times> string \<Rightarrow> string" where
  "fileBlock file =
     ''\<newline>// File: '' @ fst file @ ''\<newline>'' @
     ''// Language: '' @ getFileLanguage (fst file) @ ''\<newline>'' @
     ''```\<newline>'' @ snd file @ ''\<newline>```\<newline>''"

definition buildPrompt :: "string \<Rightarrow> (string \<times> string) list \<Rightarrow> string" where
  "buildPrompt text fileContents =
     (if length fileContents > 0
      then text @ ''\<newline>\<newline>=== Referenced Files ===\<newline>'' @ concat (map fileBlock fileContents)
      else text)"

text \<open>The message posted to the webview.\<close>

datatype message =
    AiResponse string "string list"
  | ErrorMessage string

definition handleChatMessage :: "env \<Rightarrow> string \<Rightarrow> string list \<Rightarrow> message" where
  "handleChatMessage e text attachedFiles =
     (let allFiles = allFilesOf e text attachedFiles
      in case promiseAll (readFileEntry e) allFiles of
           Inl err \<Rightarrow> ErrorMessage (''Error: '' @ errorMessage err)
         | Inr fileContents \<Rightarrow>
             (case callAI e (buildPrompt text fileContents) of
                Inl err \<Rightarrow> ErrorMessage (''Error: '' @ errorMessage err)
              | Inr response \<Rightarrow> AiResponse response allFiles))"

subsection \<open>Suggesting files\<close>

text \<open>An entry of \<^verbatim>\<open>fileList\<close> in \<^verbatim>\<open>_getWorkspaceFiles\<close>.\<close>

record fileEntry =
  path :: string
  fullPath :: string
  name :: string
  directory :: string

definition normalizeQuery :: "string \<Rightarrow> string" where
  "normalizeQuery query = toLowerCase (map (\<lambda>c. if c = CHR 0x5C then CHR ''/'' else c) query)"

definition searchPatterns :: "string \<Rightarrow> string list" where
  "searchPatterns normalizedQuery =
     (let filename = last (splitSlash normalizedQuery)
      in [''**/'' @ normalizedQuery,
          ''**/'' @ filename,
          ''**/*'' @ filename @ ''*'',
          ''**/'' @ filename @ ''.*'',
          ''**/*'' @ filename @ ''.*''])"

definition toFileEntry :: "env \<Rightarrow> string \<Rightarrow> fileEntry" where
  "toFileEntry e file =
     (let relativePath = asRelativePath e file
      in \<lparr>path = relativePath, fullPath = file, name = basename file,
          directory = dirname relativePath\<rparr>)"

text \<open>The comparator given to \<^verbatim>\<open>fileList.sort\<close>.\<close>

definition compareFiles :: "string \<Rightarrow> fileEntry \<Rightarrow> fileEntry \<Rightarrow> int" where
  "compareFiles normalizedQuery a b =
     (let aExact = (toLowerCase (path a) = normalizedQuery);
          bExact = (toLowerCase (path b) = normalizedQuery)
      in if aExact \<and> \<not> bExact then - 1
         else if \<not> aExact \<and> bExact then 1
         else
           let aDirMatch = includesStr (toLowerCase (path a)) normalizedQuery;
               bDirMatch = includesStr (toLowerCase (path b)) normalizedQuery
           in if aDirMatch \<and> \<not> bDirMatch then - 1
              else if \<not> aDirMatch \<and> bDirMatch then 1
              else int (length (path a)) - int (length (path b)))"

definition sortFileList :: "string \<Rightarrow> fileEntry list \<Rightarrow> fileEntry list" where
  "sortFileList normalizedQuery fileList = arraySort (compareFiles normalizedQuery) fileList"

text \<open>
  \<^verbatim>\<open>_getWorkspaceFiles\<close>: nothing is posted without a workspace; a rejected search
  posts the empty list. The five searches run one after the other, each with the limit 20.
\<close>

definition getWorkspaceFiles :: "env \<Rightarrow> string \<Rightarrow> fileEntry list option" where
  "getWorkspaceFiles e query =
     (case workspaceFolders e of
        None \<Rightarrow> None
      | Some folders \<Rightarrow>
          let normalizedQuery = normalizeQuery query
          in case promiseAll (\<lambda>pattern. findFiles e pattern (Some ''**/node_modules/**'') (Some 20))
                    (searchPatterns normalizedQuery) of
               Inl err \<Rightarrow> Some []
             | Inr found \<Rightarrow>
                 Some (take 20 (sortFileList normalizedQuery
                                  (map (toFileEntry e) (newSet (concat found))))))"

text \<open>\<^verbatim>\<open>_calculateRelevance\<close>. No method of the class calls it.\<close>

definition commonExtensions :: "string list" where
  "commonExtensions = [''.js'', ''.jsx'', ''.ts'', ''.tsx'', ''.vue'', ''.py'', ''.java'', ''.c'', ''.cpp'']"

definition calculateRelevance :: "fileEntry \<Rightarrow> string \<Rightarrow> nat" where
  "calculateRelevance file query =
     (let lowerQuery = toLowerCase query;
          lowerPath = toLowerCase (path file);
          lowerName = toLowerCase (name file);
          lowerDir = toLowerCase (directory file)
      in (if lowerPath = lowerQuery then 1000 else 0)
         + (if includesStr lowerPath lowerQuery then 500 else 0)
         + (if includesStr lowerDir lowerQuery then 300 else 0)
         + (if lowerName = basename lowerQuery then 200 else 0)
         + (if startsWith lowerName (basename lowerQuery) then 100 else 0)
         + (if includesStr lowerName (basename lowerQuery) then 50 else 0)
         + (if toLowerCase (extname (name file)) \<in> set commonExtensions then 20 else 0))"

text \<open>
  The ranking in the words of the specification: by relevance score, higher first; equal
  scores by ascending path length, then by lexicographic path order.
\<close>

definition spec_rankKey :: "string \<Rightarrow> fileEntry \<Rightarrow> int \<times> nat \<times> string" where
  "spec_rankKey query file =
     (- int (calculateRelevance file query), length (path file), path file)"

definition spec_rank :: "string \<Rightarrow> fileEntry list \<Rightarrow> fileEntry list" where
  "spec_rank query fileList = sort_key (spec_rankKey query) fileList"

text \<open>
  What the comparator orders by: exact matches of the path first, then paths that contain
  the query, then shorter paths.
\<close>

definition pathRankKey :: "string \<Rightarrow> fileEntry \<Rightarrow> nat \<times> nat \<times> nat" where
  "pathRankKey normalizedQuery file =
     ((if toLowerCase (path file) = normalizedQuery then 0 else 1),
      (if includesStr (toLowerCase (path file)) normalizedQuery then 0 else 1),
      length (path file))"

section \<open>FileManager\<close>

definition imageExtensions :: "string list" where
  "imageExtensions = [''.png'', ''.jpg'', ''.jpeg'', ''.gif'', ''.bmp'', ''.svg'', ''.webp'', ''.ico'']"

definition isImageFile :: "string \<Rightarrow> bool" where
  "isImageFile filePath \<longleftrightarrow> toLowerCase (extname filePath) \<in> set imageExtensions"

subsection \<open>Sizes\<close>

text \<open>
  \<^verbatim>\<open>formatFileSize\<close> on a natural number of bytes:
  \<^item> the unit index \<open>i\<close> is \<^verbatim>\<open>Math.floor(Math.log(bytes) / Math.log(1024))\<close>, taken from
    the environment (\<open>logIndex\<close>);
  \<^item> \<open>toFixed2\<close> is the number of hundredths that \<^verbatim>\<open>(bytes / Math.pow(k, i)).toFixed(2)\<close>
    prints, the nearest one, the larger of two equally near (the division by a power
    of 1024 is exact in doubles);
  \<^item> \<open>numberToString\<close> prints these hundredths the way \<^verbatim>\<open>parseFloat(...) + ' '\<close> does,
    without trailing zeros;
  \<^item> \<^verbatim>\<open>sizes[i]\<close> past the end of the array is \<^verbatim>\<open>undefined\<close>, which the concatenation
    prints as the word.
\<close>

definition sizes :: "string list" where
  "sizes = [''Bytes'', ''KB'', ''MB'', ''GB'']"

definition toFixed2 :: "nat \<Rightarrow> nat \<Rightarrow> nat" where
  "toFixed2 bytes i = (200 * bytes + 1024 ^ i) div (2 * 1024 ^ i)"

definition digitChar :: "nat \<Rightarrow> char" where
  "digitChar d = ''0123456789'' ! (d mod 10)"

function showNat :: "nat \<Rightarrow> string" where
  "showNat n = (if n < 10 then [digitChar n] else showNat (n div 10) @ [digitChar (n mod 10)])"
  by pat_completeness auto
termination
  by (relation "measure id") auto

definition numberToString :: "nat \<Rightarrow> string" where
  "numberToString hundredths =
     showNat (hundredths div 100) @
     (let r = hundredths mod 100
      in if r = 0 then []
         else if r mod 10 = 0 then CHR ''.'' # [digitChar (r div 10)]
         else CHR ''.'' # [digitChar (r div 10), digitChar (r mod 10)])"

definition formatFileSize :: "env \<Rightarrow> nat \<Rightarrow> string" where
  "formatFileSize e bytes =
     (if bytes = 0 then ''0 Bytes''
      else let i = logIndex e bytes
           in numberToString (toFixed2 bytes i) @ '' '' @
              (if i < length sizes then sizes ! i else ''undefined''))"

subsection \<open>Image summaries\<close>

definition getImageMetadata :: "env \<Rightarrow> string \<Rightarrow> string" where
  "getImageMetadata e filePath =
     (let name = basename filePath;
          extension = extname filePath
      in case statSync e filePath of
           Some (bytes, modified) \<Rightarrow>
             ''[Image: '' @ name @ '']\<newline>'' @
             ''Type: '' @ toUpperCase (substring1 extension) @ ''\<newline>'' @
             ''Size: '' @ formatFileSize e bytes @ ''\<newline>'' @
             ''Path: '' @ filePath @ ''\<newline>'' @
             ''Modified: '' @ modified @ ''\<newline>'' @
             ''\<newline>'' @
             ''This is an image file. I can see the file metadata but cannot directly analyze the image content. If you need image analysis, please describe what you'd like me to help you with regarding this image.''
         | None \<Rightarrow>
             ''[Image: '' @ name @ '']\<newline>'' @
             ''Type: '' @ toUpperCase (substring1 extension) @ ''\<newline>'' @
             ''Path: '' @ filePath @ ''\<newline>'' @
             ''\<newline>'' @
             ''This is an image file. I can reference it in our conversation but cannot directly analyze the image content.'')"

subsection \<open>Resolving and reading\<close>

text \<open>
  \<^verbatim>\<open>resolveFilePath\<close>: the first workspace folder under which the path is accessible;
  otherwise the first hit of a search for the basename whose relative path is
  \<^verbatim>\<open>===\<close> the argument; otherwise \<^verbatim>\<open>File not found\<close>.
\<close>

definition resolveFilePath :: "env \<Rightarrow> string \<Rightarrow> error + string" where
  "resolveFilePath e relativePath =
     (case workspaceFolders e of
        None \<Rightarrow> Inl (Error ''No workspace folder'')
      | Some folders \<Rightarrow>
          (case find (\<lambda>folder. access e (join folder relativePath)) folders of
             Some folder \<Rightarrow> Inr (join folder relativePath)
           | None \<Rightarrow>
               (case findFiles e (''**/'' @ basename relativePath) None None of
                  Inl err \<Rightarrow> Inl err
                | Inr files \<Rightarrow>
                    (case find (\<lambda>file. asRelativePath e file = relativePath) files of
                       Some exactMatch \<Rightarrow> Inr exactMatch
                     | None \<Rightarrow> Inl (Error (''File not found: '' @ relativePath))))))"

text \<open>The body of the \<^verbatim>\<open>try\<close> block of \<^verbatim>\<open>readFileContent\<close>.\<close>

definition readResolved :: "env \<Rightarrow> string \<Rightarrow> error + string" where
  "readResolved e filePath =
     (case (if isAbsolute filePath then Inr filePath else resolveFilePath e filePath) of
        Inl err \<Rightarrow> Inl err
      | Inr resolved \<Rightarrow>
          if isImageFile resolved then Inr (getImageMetadata e resolved)
          else openTextDocument e resolved)"

definition quote :: string where
  "quote = [CHR 0x27]"

definition readFileContent :: "env \<Rightarrow> string \<Rightarrow> error + string" where
  "readFileContent e filePath =
     (case workspaceFolders e of
        None \<Rightarrow> Inl (Error ''No workspace folder open'')
      | Some folders \<Rightarrow>
          (case readResolved e filePath of
             Inl err \<Rightarrow>
               Inl (Error (''Could not read file '' @ quote @ filePath @ quote @ '': '' @
                           errorMessage err))
           | Inr content \<Rightarrow> Inr content))"

subsection \<open>Language names\<close>

definition languageMap :: "(string \<times> string) list" where
  "languageMap =
     [(''.js'', ''javascript''), (''.ts'', ''typescript''), (''.jsx'', ''javascript''),
      (''.tsx'', ''typescript''), (''.py'', ''python''), (''.java'', ''java''),
      (''.c'', ''c''), (''.cpp'', ''cpp''), (''.cs'', ''csharp''), (''.php'', ''php''),
      (''.rb'', ''ruby''), (''.go'', ''go''), (''.rs'', ''rust''), (''.swift'', ''swift''),
      (''.kt'', ''kotlin''), (''.scala'', ''scala''), (''.html'', ''html''),
      (''.css'', ''css''), (''.scss'', ''scss''), (''.json'', ''json''), (''.xml'', ''xml''),
      (''.yaml'', ''yaml''), (''.yml'', ''yaml''), (''.md'', ''markdown''),
      (''.sh'', ''bash''), (''.sql'', ''sql'')]"

definition getLanguageFromFile :: "string \<Rightarrow> string" where
  "getLanguageFromFile filePath =
     (case map_of languageMap (toLowerCase (extname filePath)) of
        Some lang \<Rightarrow> lang
      | None \<Rightarrow> ''text'')"

section \<open>A small workspace\<close>

text \<open>
  One root, \<^verbatim>\<open>/ws\<close>, on a case-sensitive file system. The search understands the
  patterns \<^verbatim>\<open>**/x\<close> for a literal \<open>x\<close>: the files below the root whose path ends in
  \<^verbatim>\<open>/x\<close>. The generation service echoes the prompt. One file has a size, 1536 bytes,
  whose unit index is 1; no other size occurs.
\<close>

definition demoDisk :: "(string \<times> string) list" where
  "demoDisk =
     [(''/ws/a.ts'', ''let a = 1;''),
      (''/ws/src/app.ts'', ''export {};''),
      (''/ws/main.py'', ''print(1)''),
      (''/ws/zapp.md'', ''# z''),
      (''/ws/logo.png'', ''PNG''),
      (''/ws/icon.webp'', ''RIFF'')]"

definition endsWith :: "string \<Rightarrow> string \<Rightarrow> bool" where
  "endsWith s t = startsWith (rev s) (rev t)"

definition demoFindFiles :: "string \<Rightarrow> string option \<Rightarrow> nat option \<Rightarrow> error + string list" where
  "demoFindFiles include exclude maxResults =
     (let hits = (if startsWith include ''**/''
                  then filter (\<lambda>file. endsWith file (''/'' @ drop 3 include)) (map fst demoDisk)
                  else [])
      in Inr (case maxResults of None \<Rightarrow> hits | Some n \<Rightarrow> take n hits))"

definition demoRelativePath :: "string \<Rightarrow> string" where
  "demoRelativePath p = (if startsWith p ''/ws/'' then drop 4 p else p)"

definition demoOpen :: "string \<Rightarrow> error + string" where
  "demoOpen p =
     (case map_of demoDisk p of
        Some text \<Rightarrow> Inr text
      | None \<Rightarrow> Inl (Error (''cannot open '' @ p)))"

definition demoStat :: "string \<Rightarrow> (nat \<times> string) option" where
  "demoStat p = (if p = ''/ws/logo.png'' then Some (1536, ''1/1/2025'') else None)"

definition demoEnv :: env where
  "demoEnv =
     \<lparr>workspaceFolders = Some [''/ws''],
      findFiles = demoFindFiles,
      asRelativePath = demoRelativePath,
      access = (\<lambda>p. p \<in> set (map fst demoDisk)),
      openTextDocument = demoOpen,
      statSync = demoStat,
      callAI = Inr,
      logIndex = (\<lambda>bytes. if bytes = 1536 then 1 else 0)\<rparr>"

text \<open>
  A second workspace with two roots. A relative path of a multi-root workspace starts
  with the name of its root; the search knows one pattern. No stat succeeds, so no size
  is printed.
\<close>

definition demoDisk2 :: "(string \<times> string) list" where
  "demoDisk2 = [(''/ws1/lib/a.ts'', ''let lib = 1;''), (''/ws2/a.ts'', ''let a = 2;'')]"

definition demoEnv2 :: env where
  "demoEnv2 =
     \<lparr>workspaceFolders = Some [''/ws1'', ''/ws2''],
      findFiles = (\<lambda>include exclude maxResults.
                     if include = ''**/a.ts'' then Inr (map fst demoDisk2) else Inr []),
      asRelativePath = drop 1,
      access = (\<lambda>p. p \<in> set (map fst demoDisk2)),
      openTextDocument = (\<lambda>p. case map_of demoDisk2 p of
                                   Some text \<Rightarrow> Inr text
                                 | None \<Rightarrow> Inl (Error (''cannot open '' @ p))),
      statSync = (\<lambda>p. None),
      callAI = Inr,
      logIndex = (\<lambda>bytes. 0)\<rparr>"

section \<open>Notions of the specification\<close>

text \<open>The position of the first occurrence of a value in a list (its length if there is none).\<close>

definition firstIndex :: "'a list \<Rightarrow> 'a \<Rightarrow> nat" where
  "firstIndex xs x = length (takeWhile (\<lambda>y. y \<noteq> x) xs)"

text \<open>
  The resolver of the specification applied to a mention: an absolute token as it is,
  otherwise what \<^verbatim>\<open>resolveFilePath\<close> finds, and no file when it fails.
\<close>

definition spec_resolveMention :: "env \<Rightarrow> string \<Rightarrow> string option" where
  "spec_resolveMention e token =
     (if isAbsolute token then Some token
      else case resolveFilePath e token of
             Inl err \<Rightarrow> None
           | Inr file \<Rightarrow> Some file)"

section \<open>Facts about strings, sets and promises\<close>

lemmas str_eval = toLowerCase_def toLowerChar_def toUpperCase_def toUpperChar_def substring1_def

lemmas path_eval = basename_def stripTrailingSlashes_def extname_def dirname_def isAbsolute_def
  join_def normalize_def Let_def

lemmas demo_eval = demoEnv_def demoFindFiles_def demoRelativePath_def demoOpen_def demoStat_def
  demoDisk_def endsWith_def

lemmas extract_eval = extractFileReferences_def fileReferencesOf_def newSet_def cleanPath_def
  isTrailingPunct_def isRefChar_def

lemmas panel_eval = allFilesOf_def resolvedFiles_def resolveReference_def findFilesInWorkspace_def
  List.map_filter_def readFileEntry_def panel_readFileContent_def panel_isImageFile_def
  handleChatMessage_def errorMessage_def

lemma startsWith_iff: "startsWith s t \<longleftrightarrow> (\<exists>b. s = t @ b)"
  by (induction s t rule: startsWith.induct) auto

lemma includesStr_iff: "includesStr s t \<longleftrightarrow> (\<exists>a b. s = a @ t @ b)"
proof (induction s)
  case Nil
  then show ?case by auto
next
  case (Cons c s)
  show ?case
  proof
    assume "includesStr (c # s) t"
    then consider "startsWith (c # s) t" | "includesStr s t" by auto
    then show "\<exists>a b. c # s = a @ t @ b"
    proof cases
      case 1
      then obtain b where "c # s = t @ b" by (auto simp: startsWith_iff)
      then have "c # s = [] @ t @ b" by simp
      then show ?thesis by blast
    next
      case 2
      then obtain a b where "s = a @ t @ b" using Cons.IH by auto
      then have "c # s = (c # a) @ t @ b" by simp
      then show ?thesis by blast
    qed
  next
    assume "\<exists>a b. c # s = a @ t @ b"
    then obtain a b where ab: "c # s = a @ t @ b" by blast
    show "includesStr (c # s) t"
    proof (cases a)
      case Nil
      with ab have "startsWith (c # s) t" by (auto simp: startsWith_iff)
      then show ?thesis by simp
    next
      case (Cons a0 a')
      with ab have "s = a' @ t @ b" by simp
      then have "includesStr s t" using Cons.IH by blast
      then show ?thesis by simp
    qed
  qed
qed

lemma includesStr_mid: "includesStr (a @ t @ b) t"
  by (auto simp: includesStr_iff)

lemma toUpper_toLower_char: "toUpperChar (toLowerChar c) = toUpperChar c"
  by (simp add: toUpperChar_def toLowerChar_def)

lemma toUpperCase_toLowerCase: "toUpperCase (toLowerCase s) = toUpperCase s"
  by (simp add: toUpperCase_def toLowerCase_def toUpper_toLower_char)

lemma toUpperCase_substring1_lower:
  "toUpperCase (substring1 (toLowerCase s)) = toUpperCase (substring1 s)"
proof -
  have "substring1 (toLowerCase s) = toLowerCase (substring1 s)"
    by (simp add: substring1_def toLowerCase_def drop_map)
  then show ?thesis by (simp add: toUpperCase_toLowerCase)
qed

text \<open>A set keeps each value once, in the order of the first occurrences.\<close>

lemma setAdd_snoc:
  "setAdd acc (xs @ [x]) = (let r = setAdd acc xs in if x \<in> set r then r else r @ [x])"
  by (induction xs arbitrary: acc) (auto simp: Let_def)

lemma newSet_snoc:
  "newSet (xs @ [x]) = (if x \<in> set (newSet xs) then newSet xs else newSet xs @ [x])"
  by (simp add: newSet_def setAdd_snoc Let_def)

lemma newSet_Nil: "newSet [] = []"
  by (simp add: newSet_def)

lemma set_newSet: "set (newSet xs) = set xs"
  by (induction xs rule: rev_induct) (auto simp: newSet_Nil newSet_snoc)

lemma distinct_newSet: "distinct (newSet xs)"
  by (induction xs rule: rev_induct) (auto simp: newSet_Nil newSet_snoc)

lemma firstIndex_append_mem: "a \<in> set xs \<Longrightarrow> firstIndex (xs @ ys) a = firstIndex xs a"
  by (simp add: firstIndex_def)

lemma firstIndex_less: "a \<in> set xs \<Longrightarrow> firstIndex xs a < length xs"
  unfolding firstIndex_def by (induction xs) auto

lemma firstIndex_fresh: "x \<notin> set xs \<Longrightarrow> firstIndex (xs @ [x]) x = length xs"
  unfolding firstIndex_def by (induction xs) auto

lemma newSet_first_occurrence:
  "sorted_wrt (\<lambda>a b. firstIndex xs a < firstIndex xs b) (newSet xs)"
proof (induction xs rule: rev_induct)
  case Nil
  then show ?case by (simp add: newSet_Nil)
next
  case (snoc x xs)
  have keep: "sorted_wrt (\<lambda>a b. firstIndex (xs @ [x]) a < firstIndex (xs @ [x]) b) (newSet xs)"
    using snoc.IH
    by (rule sorted_wrt_mono_rel[rotated]) (simp add: set_newSet firstIndex_append_mem)
  show ?case
  proof (cases "x \<in> set xs")
    case True
    then show ?thesis using keep by (simp add: newSet_snoc set_newSet)
  next
    case False
    have "\<forall>a\<in>set (newSet xs). firstIndex (xs @ [x]) a < firstIndex (xs @ [x]) x"
      using False by (simp add: set_newSet firstIndex_append_mem firstIndex_less firstIndex_fresh)
    then show ?thesis
      using False keep by (simp add: newSet_snoc set_newSet sorted_wrt_append)
  qed
qed

text \<open>All the calls succeed, or the whole is rejected.\<close>

lemma promiseAll_Inr:
  "\<forall>x\<in>set xs. \<not> isl (f x) \<Longrightarrow> promiseAll f xs = Inr (map (\<lambda>x. projr (f x)) xs)"
proof (induction xs)
  case Nil
  then show ?case by simp
next
  case (Cons x xs)
  then obtain y where "f x = Inr y" by (cases "f x") auto
  with Cons show ?case by simp
qed

lemma promiseAll_Inl:
  "\<exists>x\<in>set xs. isl (f x) \<Longrightarrow> isl (promiseAll f xs)"
proof (induction xs)
  case Nil
  then show ?case by simp
next
  case (Cons x xs)
  show ?case
  proof (cases "f x")
    case (Inl err)
    then show ?thesis by simp
  next
    case (Inr y)
    with Cons.prems have "\<exists>x\<in>set xs. isl (f x)" by auto
    then have "isl (promiseAll f xs)" by (rule Cons.IH)
    then show ?thesis using Inr by (cases "promiseAll f xs") auto
  qed
qed

lemma set_map_filter: "set (List.map_filter f xs) = {y. \<exists>x\<in>set xs. f x = Some y}"
  by (induction xs) (auto simp: map_filter_simps split: option.splits)

lemma find_None_all: "find P xs = None \<longleftrightarrow> (\<forall>x\<in>set xs. \<not> P x)"
  by (induction xs) auto

section \<open>The ranking of suggestions\<close>

lemma compareFiles_le_iff:
  "compareFiles nq a b \<le> 0 \<longleftrightarrow> pathRankKey nq a \<le> pathRankKey nq b"
  by (simp add: compareFiles_def pathRankKey_def Let_def less_eq_prod_def)

lemma insertBy_insort_key:
  "insertBy (compareFiles nq) x ys = insort_key (pathRankKey nq) x ys"
  by (induction ys) (simp_all add: compareFiles_le_iff)

lemma arraySort_compareFiles:
  "arraySort (compareFiles nq) fileList = sort_key (pathRankKey nq) fileList"
proof -
  have "insertBy (compareFiles nq) = insort_key (pathRankKey nq)"
    by (intro ext) (rule insertBy_insort_key)
  then show ?thesis
    by (simp add: arraySort_def sort_key_def)
qed

text \<open>What \<^verbatim>\<open>_getWorkspaceFiles\<close> posts is in this order and has at most twenty entries.\<close>

lemma getWorkspaceFiles_ranked:
  assumes "getWorkspaceFiles e query = Some out"
  shows "sorted (map (pathRankKey (normalizeQuery query)) out) \<and> length out \<le> 20"
proof -
  have "sorted (map (pathRankKey nq) (take 20 (sortFileList nq xs)))" for nq xs
    by (simp add: sortFileList_def arraySort_compareFiles take_map [symmetric] sorted_wrt_take)
  then show ?thesis
    using assms
    by (auto simp: getWorkspaceFiles_def Let_def split: option.splits sum.splits)
qed

text \<open>
  C1, as the code has it. For every normalized query and every list of candidates,
  \<^verbatim>\<open>fileList.sort\<close> in \<^verbatim>\<open>_getWorkspaceFiles\<close> is the stable sort by three keys: entries
  whose lower-cased relative path equals the query come first, then entries whose
  lower-cased relative path contains the query, then shorter paths before longer ones;
  entries that agree in all three keep the order in which the searches found them. The
  relevance score is not part of the order, and neither is the lexicographic order of
  the paths.
\<close>

theorem sortFileList_stable_sort:
  "sortFileList nq fileList = sort_key (pathRankKey nq) fileList"
  by (simp add: sortFileList_def arraySort_compareFiles)

text \<open>
  C1 as stated fails. For the query \<^verbatim>\<open>app\<close> and the candidates \<^verbatim>\<open>src/app.ts\<close>
  (score 670) and \<^verbatim>\<open>zapp.md\<close> (score 550), the code puts the shorter path
  \<^verbatim>\<open>zapp.md\<close> first; sorting by score puts \<^verbatim>\<open>src/app.ts\<close> first.
\<close>

theorem sortFileList_score_counterexample:
  "sortFileList ''app'' (map (toFileEntry demoEnv) [''/ws/src/app.ts'', ''/ws/zapp.md''])
     = map (toFileEntry demoEnv) [''/ws/zapp.md'', ''/ws/src/app.ts''] \<and>
   spec_rank ''app'' (map (toFileEntry demoEnv) [''/ws/src/app.ts'', ''/ws/zapp.md''])
     = map (toFileEntry demoEnv) [''/ws/src/app.ts'', ''/ws/zapp.md''] \<and>
   calculateRelevance (toFileEntry demoEnv ''/ws/zapp.md'') ''app'' = 550 \<and>
   calculateRelevance (toFileEntry demoEnv ''/ws/src/app.ts'') ''app'' = 670"
  by (simp add: toFileEntry_def demoEnv_def demoRelativePath_def basename_def
      stripTrailingSlashes_def dirname_def Let_def sortFileList_def arraySort_def
      compareFiles_def toLowerCase_def toLowerChar_def calculateRelevance_def extname_def
      commonExtensions_def spec_rank_def spec_rankKey_def)

section \<open>Reading the files of a message\<close>

lemma isl_readFileEntry: "isl (readFileEntry e f) = isl (panel_readFileContent e f)"
  by (cases "panel_readFileContent e f") (simp_all add: readFileEntry_def)

lemma projr_readFileEntry:
  "\<not> isl (panel_readFileContent e f) \<Longrightarrow>
   projr (readFileEntry e f) = (asRelativePath e f, projr (panel_readFileContent e f))"
  by (cases "panel_readFileContent e f") (simp_all add: readFileEntry_def)

text \<open>
  C2, as the code has it. \<^verbatim>\<open>_handleChatMessage\<close> reads the files of the assembled set
  under one \<^verbatim>\<open>Promise.all\<close> with no handler per file. If one file of the set fails to
  read, the handler posts an error message and no prompt is sent. If every file reads,
  the prompt sent to the generation service is the text followed by one block per file
  of the set, in the order of the set.
\<close>

theorem handleChatMessage_all_or_nothing:
  "((\<exists>f\<in>set (allFilesOf e msg attachedFiles). isl (panel_readFileContent e f)) \<longrightarrow>
      (\<exists>err. handleChatMessage e msg attachedFiles = ErrorMessage (''Error: '' @ errorMessage err))) \<and>
   ((\<forall>f\<in>set (allFilesOf e msg attachedFiles). \<not> isl (panel_readFileContent e f)) \<longrightarrow>
      handleChatMessage e msg attachedFiles =
        (case callAI e (buildPrompt msg
                 (map (\<lambda>f. (asRelativePath e f, projr (panel_readFileContent e f)))
                      (allFilesOf e msg attachedFiles))) of
           Inl err \<Rightarrow> ErrorMessage (''Error: '' @ errorMessage err)
         | Inr response \<Rightarrow> AiResponse response (allFilesOf e msg attachedFiles)))"
proof (intro conjI impI)
  assume "\<exists>f\<in>set (allFilesOf e msg attachedFiles). isl (panel_readFileContent e f)"
  then have "isl (promiseAll (readFileEntry e) (allFilesOf e msg attachedFiles))"
    by (intro promiseAll_Inl) (simp add: isl_readFileEntry)
  then obtain err where "promiseAll (readFileEntry e) (allFilesOf e msg attachedFiles) = Inl err"
    by (auto simp: isl_def)
  then show "\<exists>err. handleChatMessage e msg attachedFiles = ErrorMessage (''Error: '' @ errorMessage err)"
    by (auto simp: handleChatMessage_def Let_def)
next
  assume ok: "\<forall>f\<in>set (allFilesOf e msg attachedFiles). \<not> isl (panel_readFileContent e f)"
  have "promiseAll (readFileEntry e) (allFilesOf e msg attachedFiles) =
          Inr (map (\<lambda>f. (asRelativePath e f, projr (panel_readFileContent e f)))
                 (allFilesOf e msg attachedFiles))"
    using ok by (simp add: promiseAll_Inr isl_readFileEntry projr_readFileEntry)
  then show "handleChatMessage e msg attachedFiles =
        (case callAI e (buildPrompt msg
                 (map (\<lambda>f. (asRelativePath e f, projr (panel_readFileContent e f)))
                      (allFilesOf e msg attachedFiles))) of
           Inl err \<Rightarrow> ErrorMessage (''Error: '' @ errorMessage err)
         | Inr response \<Rightarrow> AiResponse response (allFilesOf e msg attachedFiles))"
    by (simp add: handleChatMessage_def Let_def)
qed

lemma allFiles_hi_two: "allFilesOf demoEnv ''hi'' [''a.ts'', ''missing.ts''] = [''a.ts'', ''missing.ts'']"
  by (simp add: panel_eval extract_eval)

lemma allFiles_hi_one: "allFilesOf demoEnv ''hi'' [''a.ts''] = [''a.ts'']"
  by (simp add: panel_eval extract_eval)

lemma read_a: "panel_readFileContent demoEnv ''a.ts'' = Inr ''let a = 1;''"
  by (simp add: panel_eval demo_eval path_eval str_eval)

lemma read_ws_a: "panel_readFileContent demoEnv ''/ws/a.ts'' = Inr ''let a = 1;''"
  by (simp add: panel_eval demo_eval path_eval str_eval)

lemma read_missing:
  "panel_readFileContent demoEnv ''missing.ts'' = Inl (Error ''cannot open /ws/missing.ts'')"
  by (simp add: panel_eval demo_eval path_eval str_eval)

lemma rel_a: "asRelativePath demoEnv ''a.ts'' = ''a.ts''"
  by (simp add: demo_eval)

lemma rel_ws_a: "asRelativePath demoEnv ''/ws/a.ts'' = ''a.ts''"
  by (simp add: demo_eval)

lemma callAI_demo: "callAI demoEnv p = Inr p"
  by (simp add: demo_eval)

lemma ws_demo: "workspaceFolders demoEnv = Some [''/ws'']"
  by (simp add: demo_eval)

theorem handleChatMessage_all_or_nothing_witness:
  "''missing.ts'' \<in> set (allFilesOf demoEnv ''hi'' [''a.ts'', ''missing.ts'']) \<and>
   isl (panel_readFileContent demoEnv ''missing.ts'') \<and>
   (\<exists>err. handleChatMessage demoEnv ''hi'' [''a.ts'', ''missing.ts'']
            = ErrorMessage (''Error: '' @ errorMessage err)) \<and>
   allFilesOf demoEnv ''hi'' [''a.ts''] = [''a.ts''] \<and>
   \<not> isl (panel_readFileContent demoEnv ''a.ts'') \<and>
   handleChatMessage demoEnv ''hi'' [''a.ts'']
     = AiResponse (buildPrompt ''hi'' [(''a.ts'', ''let a = 1;'')]) [''a.ts'']"
proof -
  have m: "''missing.ts'' \<in> set (allFilesOf demoEnv ''hi'' [''a.ts'', ''missing.ts''])"
    by (simp add: allFiles_hi_two)
  have f: "isl (panel_readFileContent demoEnv ''missing.ts'')"
    by (simp add: read_missing)
  have g: "\<not> isl (panel_readFileContent demoEnv ''a.ts'')"
    by (simp add: read_a)
  have good: "\<forall>f\<in>set (allFilesOf demoEnv ''hi'' [''a.ts'']). \<not> isl (panel_readFileContent demoEnv f)"
    by (simp add: allFiles_hi_one read_a)
  have 1: "\<exists>err. handleChatMessage demoEnv ''hi'' [''a.ts'', ''missing.ts'']
            = ErrorMessage (''Error: '' @ errorMessage err)"
    using handleChatMessage_all_or_nothing [of demoEnv "''hi''" "[''a.ts'', ''missing.ts'']"] m f
    by blast
  have 2: "handleChatMessage demoEnv ''hi'' [''a.ts'']
     = AiResponse (buildPrompt ''hi'' [(''a.ts'', ''let a = 1;'')]) [''a.ts'']"
    using handleChatMessage_all_or_nothing [of demoEnv "''hi''" "[''a.ts'']"] good
    by (simp add: allFiles_hi_one read_a rel_a callAI_demo)
  from m f g 1 2 allFiles_hi_one show ?thesis by blast
qed

text \<open>
  C2 as stated fails. With the attachments \<^verbatim>\<open>a.ts\<close>, which reads, and
  \<^verbatim>\<open>missing.ts\<close>, which does not, the handler posts the error of the failed read; no
  block for \<^verbatim>\<open>a.ts\<close> is produced.
\<close>

theorem handleChatMessage_read_failure_counterexample:
  "allFilesOf demoEnv ''hi'' [''a.ts'', ''missing.ts''] = [''a.ts'', ''missing.ts''] \<and>
   panel_readFileContent demoEnv ''a.ts'' = Inr ''let a = 1;'' \<and>
   panel_readFileContent demoEnv ''missing.ts'' = Inl (Error ''cannot open /ws/missing.ts'') \<and>
   handleChatMessage demoEnv ''hi'' [''a.ts'', ''missing.ts'']
     = ErrorMessage ''Error: cannot open /ws/missing.ts''"
  by (simp add: allFiles_hi_two read_a read_missing handleChatMessage_def readFileEntry_def
      errorMessage_def Let_def)

section \<open>The assembled set\<close>

lemma distinct_allFilesOf: "distinct (allFilesOf e msg attachedFiles)"
  by (simp add: allFilesOf_def distinct_newSet)

lemma allFiles_explain: "allFilesOf demoEnv ''explain @a.ts'' [''a.ts''] = [''a.ts'', ''/ws/a.ts'']"
  by (simp add: panel_eval extract_eval demo_eval)

lemma join_ws_a: "join ''/ws'' ''a.ts'' = ''/ws/a.ts''"
  by (simp add: path_eval)

text \<open>
  C3 fails on the code. The set removes equal strings, and an attachment is the
  relative path the suggestion list gave while a resolved mention is an absolute
  \<^verbatim>\<open>fsPath\<close>. With the attachment \<^verbatim>\<open>a.ts\<close> and the mention \<^verbatim>\<open>@a.ts\<close> in the
  workspace \<^verbatim>\<open>/ws\<close>, the set holds both \<^verbatim>\<open>a.ts\<close> and \<^verbatim>\<open>/ws/a.ts\<close>, the reader
  opens \<^verbatim>\<open>/ws/a.ts\<close> for each, and the prompt has two blocks for the one file.
\<close>

theorem allFilesOf_same_file_twice:
  "allFilesOf demoEnv ''explain @a.ts'' [''a.ts''] = [''a.ts'', ''/ws/a.ts''] \<and>
   join ''/ws'' ''a.ts'' = ''/ws/a.ts'' \<and>
   promiseAll (readFileEntry demoEnv) (allFilesOf demoEnv ''explain @a.ts'' [''a.ts''])
     = Inr [(''a.ts'', ''let a = 1;''), (''a.ts'', ''let a = 1;'')] \<and>
   handleChatMessage demoEnv ''explain @a.ts'' [''a.ts'']
     = AiResponse (buildPrompt ''explain @a.ts'' [(''a.ts'', ''let a = 1;''), (''a.ts'', ''let a = 1;'')])
         [''a.ts'', ''/ws/a.ts'']"
  by (simp add: allFiles_explain read_a read_ws_a rel_a rel_ws_a callAI_demo join_ws_a
      handleChatMessage_def readFileEntry_def Let_def)

section \<open>Resolving a mention\<close>

text \<open>
  C4, as the code has it. The file chosen for a mention is the first hit of the
  workspace search for \<^verbatim>\<open>**/token\<close> (without \<^verbatim>\<open>node_modules\<close>, at most five hits), and
  none when the search is rejected or finds nothing. The choice does not depend on the
  workspace folders, on \<^verbatim>\<open>fs.access\<close> or on relative paths, which are what
  \<^verbatim>\<open>resolveFilePath\<close> consults. The assembled set is the attachments together with the
  non-empty choices for the mentions of the text.
\<close>

theorem resolveReference_first_search_hit:
  "resolveReference e ref =
     (case findFiles e (''**/'' @ ref) (Some ''**/node_modules/**'') (Some 5) of
        Inl err \<Rightarrow> None
      | Inr files \<Rightarrow> (if files = [] then None else Some (hd files))) \<and>
   resolveReference (e\<lparr>workspaceFolders := w, access := a, asRelativePath := r\<rparr>) ref
     = resolveReference e ref \<and>
   set (allFilesOf e msg attachedFiles) =
     set attachedFiles \<union>
     {file. file \<noteq> [] \<and> (\<exists>ref\<in>set (fileReferencesOf msg). resolveReference e ref = Some file)}"
proof (intro conjI)
  show "resolveReference e ref =
     (case findFiles e (''**/'' @ ref) (Some ''**/node_modules/**'') (Some 5) of
        Inl err \<Rightarrow> None
      | Inr files \<Rightarrow> (if files = [] then None else Some (hd files)))"
    by (simp add: resolveReference_def findFilesInWorkspace_def split: sum.splits list.splits)
  show "resolveReference (e\<lparr>workspaceFolders := w, access := a, asRelativePath := r\<rparr>) ref
     = resolveReference e ref"
    by (simp add: resolveReference_def findFilesInWorkspace_def)
  show "set (allFilesOf e msg attachedFiles) =
     set attachedFiles \<union>
     {file. file \<noteq> [] \<and> (\<exists>ref\<in>set (fileReferencesOf msg). resolveReference e ref = Some file)}"
    by (auto simp: allFilesOf_def set_newSet resolvedFiles_def set_map_filter)
qed

lemma refs_open_app: "fileReferencesOf ''open @app.ts'' = [''app.ts'']"
  by (simp add: extract_eval)

lemma search_app:
  "findFiles demoEnv ''**/app.ts'' (Some ''**/node_modules/**'') (Some 5) = Inr [''/ws/src/app.ts'']"
  by (simp add: demo_eval)

theorem resolveReference_first_search_hit_witness:
  "findFiles demoEnv ''**/app.ts'' (Some ''**/node_modules/**'') (Some 5)
     = Inr [''/ws/src/app.ts''] \<and>
   resolveReference demoEnv ''app.ts'' = Some ''/ws/src/app.ts'' \<and>
   ''/ws/src/app.ts'' \<in> set (allFilesOf demoEnv ''open @app.ts'' [])"
proof -
  have 1: "resolveReference demoEnv ''app.ts'' = Some ''/ws/src/app.ts''"
    using resolveReference_first_search_hit [of demoEnv "''app.ts''"] by (simp add: search_app)
  have "''/ws/src/app.ts'' \<in> set (allFilesOf demoEnv ''open @app.ts'' [])"
    using resolveReference_first_search_hit [of demoEnv _ _ _ _ "''open @app.ts''" "[]"] 1
    by (simp add: refs_open_app)
  with 1 search_app show ?thesis by blast
qed

text \<open>
  C4 as stated fails. For the mention \<^verbatim>\<open>@app.ts\<close> in a workspace whose only such
  file is \<^verbatim>\<open>/ws/src/app.ts\<close>, the assembler chooses that file, while
  \<^verbatim>\<open>resolveFilePath\<close> finds neither \<^verbatim>\<open>/ws/app.ts\<close> nor a hit with the relative path
  \<^verbatim>\<open>app.ts\<close> and fails.
\<close>

theorem resolveReference_counterexample:
  "fileReferencesOf ''open @app.ts'' = [''app.ts''] \<and>
   resolveReference demoEnv ''app.ts'' = Some ''/ws/src/app.ts'' \<and>
   resolveFilePath demoEnv ''app.ts'' = Inl (Error ''File not found: app.ts'') \<and>
   spec_resolveMention demoEnv ''app.ts'' = None"
  by (simp add: extract_eval resolveReference_def findFilesInWorkspace_def resolveFilePath_def
      spec_resolveMention_def demo_eval path_eval)

text \<open>
  C5, as the code has it. When the token is accessible under no workspace folder,
  \<^verbatim>\<open>resolveFilePath\<close> searches for the basename of the token and returns the first hit
  whose relative path is equal to the token, character by character; with no such hit
  it fails with \<^verbatim>\<open>File not found\<close> and the token.
\<close>

theorem resolveFilePath_fallback_exact:
  assumes "workspaceFolders e = Some folders"
      and "\<forall>folder\<in>set folders. \<not> access e (join folder token)"
      and "findFiles e (''**/'' @ basename token) None None = Inr files"
  shows "resolveFilePath e token =
           (case find (\<lambda>file. asRelativePath e file = token) files of
              Some exactMatch \<Rightarrow> Inr exactMatch
            | None \<Rightarrow> Inl (Error (''File not found: '' @ token)))"
proof -
  have "find (\<lambda>folder. access e (join folder token)) folders = None"
    using assms(2) by (simp add: find_None_all)
  then show ?thesis
    using assms(1,3) by (simp add: resolveFilePath_def)
qed

theorem resolveFilePath_fallback_exact_witness:
  "workspaceFolders demoEnv2 = Some [''/ws1'', ''/ws2''] \<and>
   \<not> access demoEnv2 (join ''/ws1'' ''ws2/a.ts'') \<and>
   \<not> access demoEnv2 (join ''/ws2'' ''ws2/a.ts'') \<and>
   findFiles demoEnv2 (''**/'' @ basename ''ws2/a.ts'') None None
     = Inr [''/ws1/lib/a.ts'', ''/ws2/a.ts''] \<and>
   asRelativePath demoEnv2 ''/ws2/a.ts'' = ''ws2/a.ts'' \<and>
   resolveFilePath demoEnv2 ''ws2/a.ts'' = Inr ''/ws2/a.ts''"
proof -
  have 1: "workspaceFolders demoEnv2 = Some [''/ws1'', ''/ws2'']"
    by (simp add: demoEnv2_def demoDisk2_def)
  have a1: "\<not> access demoEnv2 (join ''/ws1'' ''ws2/a.ts'')"
    by (simp add: demoEnv2_def demoDisk2_def path_eval)
  have a2: "\<not> access demoEnv2 (join ''/ws2'' ''ws2/a.ts'')"
    by (simp add: demoEnv2_def demoDisk2_def path_eval)
  have 2: "\<forall>folder\<in>set [''/ws1'', ''/ws2'']. \<not> access demoEnv2 (join folder ''ws2/a.ts'')"
    using a1 a2 by simp
  have 3: "findFiles demoEnv2 (''**/'' @ basename ''ws2/a.ts'') None None
             = Inr [''/ws1/lib/a.ts'', ''/ws2/a.ts'']"
    by (simp add: demoEnv2_def demoDisk2_def path_eval)
  have 4: "asRelativePath demoEnv2 ''/ws2/a.ts'' = ''ws2/a.ts''"
    by (simp add: demoEnv2_def demoDisk2_def)
  have "resolveFilePath demoEnv2 ''ws2/a.ts'' = Inr ''/ws2/a.ts''"
    using resolveFilePath_fallback_exact [OF 1 2 3] by (simp add: demoEnv2_def demoDisk2_def)
  with 1 a1 a2 3 4 show ?thesis by blast
qed

text \<open>
  C5 as stated fails. The token \<^verbatim>\<open>SRC/app.ts\<close> is accessible under no root, the
  search for \<^verbatim>\<open>app.ts\<close> finds \<^verbatim>\<open>/ws/src/app.ts\<close>, whose relative path
  \<^verbatim>\<open>src/app.ts\<close> differs from the token in letter case only, and the resolution fails.
\<close>

theorem resolveFilePath_case_counterexample:
  "workspaceFolders demoEnv = Some [''/ws''] \<and>
   \<not> access demoEnv (join ''/ws'' ''SRC/app.ts'') \<and>
   findFiles demoEnv (''**/'' @ basename ''SRC/app.ts'') None None = Inr [''/ws/src/app.ts''] \<and>
   asRelativePath demoEnv ''/ws/src/app.ts'' = ''src/app.ts'' \<and>
   toLowerCase ''src/app.ts'' = toLowerCase ''SRC/app.ts'' \<and>
   resolveFilePath demoEnv ''SRC/app.ts'' = Inl (Error ''File not found: SRC/app.ts'')"
  by (simp add: resolveFilePath_def demo_eval path_eval str_eval)

section \<open>Language tags\<close>

text \<open>
  C6, as the code has it. For a file whose lower-cased extension is not in the table
  of \<^verbatim>\<open>_getFileLanguage\<close>, the language tag written into its block is the extension
  without its dot, in upper case (the empty string for a file without extension).
\<close>

theorem getFileLanguage_unknown_extension:
  assumes "map_of langMap (toLowerCase (extname filePath)) = None"
  shows "getFileLanguage filePath = toUpperCase (substring1 (extname filePath)) \<and>
         fileBlock (filePath, content) =
           ''\<newline>// File: '' @ filePath @ ''\<newline>'' @
           ''// Language: '' @ toUpperCase (substring1 (extname filePath)) @ ''\<newline>'' @
           ''```\<newline>'' @ content @ ''\<newline>```\<newline>''"
proof -
  have "getFileLanguage filePath = toUpperCase (substring1 (extname filePath))"
    using assms by (simp add: getFileLanguage_def Let_def toUpperCase_substring1_lower)
  then show ?thesis by (simp add: fileBlock_def)
qed

text \<open>The table of \<^verbatim>\<open>FileManager\<close>, which the chat panel does not use, has the default.\<close>

lemma getLanguageFromFile_default:
  "map_of languageMap (toLowerCase (extname p)) = None \<Longrightarrow> getLanguageFromFile p = ''text''"
  by (simp add: getLanguageFromFile_def)

lemma ext_main_py: "toLowerCase (extname ''main.py'') = ''.py''"
  by (simp add: path_eval str_eval)

theorem getFileLanguage_unknown_extension_witness:
  "map_of langMap (toLowerCase (extname ''main.py'')) = None \<and>
   getFileLanguage ''main.py'' = toUpperCase (substring1 (extname ''main.py''))"
proof -
  have h: "map_of langMap (toLowerCase (extname ''main.py'')) = None"
    by (simp add: ext_main_py langMap_def)
  from getFileLanguage_unknown_extension [OF h] h show ?thesis by blast
qed

lemma allFiles_run: "allFilesOf demoEnv ''run @main.py'' [] = [''/ws/main.py'']"
  by (simp add: panel_eval extract_eval demo_eval)

lemma read_main_py: "readFileEntry demoEnv ''/ws/main.py'' = Inr (''main.py'', ''print(1)'')"
  by (simp add: panel_eval demo_eval path_eval str_eval)

lemma upper_py: "toUpperCase (substring1 ''.py'') = ''PY''"
  by (simp add: str_eval)

lemma lang_main_py: "getFileLanguage ''main.py'' = ''PY''"
  by (simp add: getFileLanguage_def ext_main_py langMap_def upper_py)

text \<open>
  C6 as stated fails. The extension \<^verbatim>\<open>.py\<close> is not in the table, and the block of
  \<^verbatim>\<open>main.py\<close> carries the tag \<^verbatim>\<open>PY\<close>.
\<close>

theorem getFileLanguage_text_counterexample:
  "map_of langMap (toLowerCase (extname ''main.py'')) = None \<and>
   getFileLanguage ''main.py'' = ''PY'' \<and>
   handleChatMessage demoEnv ''run @main.py'' [] =
     AiResponse
       (''run @main.py'' @ ''\<newline>\<newline>=== Referenced Files ===\<newline>'' @
        ''\<newline>// File: main.py\<newline>'' @
        ''// Language: PY\<newline>'' @
        ''```\<newline>print(1)\<newline>```\<newline>'')
       [''/ws/main.py'']"
  by (simp add: ext_main_py lang_main_py allFiles_run read_main_py callAI_demo
      handleChatMessage_def Let_def buildPrompt_def fileBlock_def langMap_def)

section \<open>Mentions\<close>

lemma cleanPath_no_trailing: "cleanPath m = [] \<or> \<not> isTrailingPunct (last (cleanPath m))"
proof -
  have "dropWhile isTrailingPunct (rev m) = [] \<or>
        \<not> isTrailingPunct (hd (dropWhile isTrailingPunct (rev m)))"
    using hd_dropWhile by blast
  then show ?thesis
    by (auto simp: cleanPath_def last_rev)
qed

lemma execAll_no_at: "CHR ''@'' \<notin> set s \<Longrightarrow> execAll s = []"
  by (induction s) auto

lemma execAll_nonempty: "m \<in> set (execAll s) \<Longrightarrow> m \<noteq> [] \<and> (\<forall>c\<in>set m. isRefChar c)"
proof (induction s rule: execAll.induct)
  case 1
  then show ?case by simp
next
  case (2 c cs)
  then show ?case
    by (auto split: if_splits dest: set_takeWhileD)
qed

text \<open>The empty token comes from a mention made of dots only.\<close>

lemma cleanPath_empty_iff: "cleanPath m = [] \<longleftrightarrow> (\<forall>c\<in>set m. isTrailingPunct c)"
  by (simp add: cleanPath_def dropWhile_eq_Nil_conv)

lemma refChar_punct_dot: "isRefChar c \<Longrightarrow> isTrailingPunct c \<longleftrightarrow> c = CHR ''.''"
  by (auto simp: isRefChar_def isTrailingPunct_def)

lemma extractFileReferences_empty_iff:
  "[] \<in> set (extractFileReferences s) \<longleftrightarrow> (\<exists>m\<in>set (execAll s). set m \<subseteq> {CHR ''.''})"
proof -
  have "cleanPath m = [] \<longleftrightarrow> set m \<subseteq> {CHR ''.''}" if "m \<in> set (execAll s)" for m
  proof -
    have "\<forall>c\<in>set m. isRefChar c" using that execAll_nonempty by blast
    then show ?thesis
      using refChar_punct_dot by (auto simp: cleanPath_empty_iff)
  qed
  then show ?thesis
    by (auto simp: extractFileReferences_def set_newSet image_iff) metis+
qed

lemma extract_example: "extractFileReferences ''fix @a.ts and @a.ts again'' = [''a.ts'']"
  by (simp add: extract_eval)

lemma extract_example_punct: "extractFileReferences ''@utils.js?'' = [''utils.js'']"
  by (simp add: extract_eval)

text \<open>
  C7, as the code has it. For every text, \<^verbatim>\<open>_extractFileReferences\<close> returns the
  cleaned matches without duplicates, in the order of their first occurrences; no
  returned token ends in one of \<^verbatim>\<open>.,;!?\<close>, and a token may be the empty string; a text
  without \<^verbatim>\<open>@\<close> gives the empty list. The caller \<^verbatim>\<open>_handleChatMessage\<close> removes the
  empty token before it resolves anything, so the references it uses are non-empty and
  still free of duplicates.
\<close>

theorem extractFileReferences_first_occurrence:
  "distinct (extractFileReferences s) \<and>
   set (extractFileReferences s) = cleanPath ` set (execAll s) \<and>
   sorted_wrt (\<lambda>a b. firstIndex (map cleanPath (execAll s)) a
                      < firstIndex (map cleanPath (execAll s)) b)
     (extractFileReferences s) \<and>
   (\<forall>t\<in>set (extractFileReferences s). t = [] \<or> \<not> isTrailingPunct (last t)) \<and>
   (CHR ''@'' \<notin> set s \<longrightarrow> extractFileReferences s = []) \<and>
   distinct (fileReferencesOf s) \<and>
   (\<forall>t\<in>set (fileReferencesOf s). t \<noteq> [])"
proof -
  have "\<forall>t\<in>set (extractFileReferences s). t = [] \<or> \<not> isTrailingPunct (last t)"
    using cleanPath_no_trailing by (auto simp: extractFileReferences_def set_newSet)
  moreover have "CHR ''@'' \<notin> set s \<longrightarrow> extractFileReferences s = []"
    by (simp add: extractFileReferences_def execAll_no_at newSet_Nil)
  ultimately show ?thesis
    by (simp add: extractFileReferences_def fileReferencesOf_def distinct_newSet set_newSet
        newSet_first_occurrence)
qed

theorem extractFileReferences_first_occurrence_witness:
  "extractFileReferences ''fix @a.ts and @a.ts again'' = [''a.ts''] \<and>
   ''a.ts'' \<in> set (extractFileReferences ''fix @a.ts and @a.ts again'') \<and>
   \<not> isTrailingPunct (last ''a.ts'') \<and>
   ''a.ts'' \<in> set (fileReferencesOf ''fix @a.ts and @a.ts again'') \<and> ''a.ts'' \<noteq> [] \<and>
   CHR ''@'' \<notin> set ''no mention'' \<and> extractFileReferences ''no mention'' = []"
proof -
  have 1: "extractFileReferences ''fix @a.ts and @a.ts again'' = [''a.ts'']"
    by (rule extract_example)
  have 2: "CHR ''@'' \<notin> set ''no mention''" by simp
  have 3: "extractFileReferences ''no mention'' = []"
    using extractFileReferences_first_occurrence [of "''no mention''"] 2 by blast
  have 4: "\<forall>t\<in>set (extractFileReferences ''fix @a.ts and @a.ts again'').
             t = [] \<or> \<not> isTrailingPunct (last t)"
    using extractFileReferences_first_occurrence [of "''fix @a.ts and @a.ts again''"] by blast
  have 5: "\<forall>t\<in>set (fileReferencesOf ''fix @a.ts and @a.ts again''). t \<noteq> []"
    using extractFileReferences_first_occurrence [of "''fix @a.ts and @a.ts again''"] by blast
  have 6: "fileReferencesOf ''fix @a.ts and @a.ts again'' = [''a.ts'']"
    by (simp add: fileReferencesOf_def 1)
  from 1 2 3 4 5 6 show ?thesis by simp
qed

text \<open>
  C7 as stated fails. In \<^verbatim>\<open>see @...\<close> the match is \<^verbatim>\<open>...\<close>, all of it trailing
  punctuation, and the returned sequence holds the empty token.
\<close>

theorem extractFileReferences_empty_token_counterexample:
  "extractFileReferences ''see @...'' = [[]]"
  by (simp add: extract_eval)

section \<open>Image summaries of FileManager\<close>

lemma png_upper:
  assumes "toLowerCase (extname p) = ''.png''"
  shows "toUpperCase (substring1 (extname p)) = ''PNG''"
proof -
  have "toUpperCase (substring1 (extname p)) = toUpperCase (substring1 (toLowerCase (extname p)))"
    by (simp add: toUpperCase_substring1_lower)
  also have "\<dots> = ''PNG''"
    unfolding assms by (simp add: str_eval)
  finally show ?thesis .
qed

lemma getImageMetadata_Image: "includesStr (getImageMetadata e p) ''Image:''"
proof (cases "statSync e p")
  case None
  have "getImageMetadata e p = ''['' @ ''Image:'' @
      ('' '' @ basename p @ '']\<newline>'' @ ''Type: '' @ toUpperCase (substring1 (extname p)) @ ''\<newline>'' @
       ''Path: '' @ p @ ''\<newline>'' @ ''\<newline>'' @
       ''This is an image file. I can reference it in our conversation but cannot directly analyze the image content.'')"
    using None by (simp add: getImageMetadata_def Let_def)
  then show ?thesis by (simp only: includesStr_mid)
next
  case (Some st)
  obtain bytes modified where st: "st = (bytes, modified)" by (cases st)
  have "getImageMetadata e p = ''['' @ ''Image:'' @
      ('' '' @ basename p @ '']\<newline>'' @ ''Type: '' @ toUpperCase (substring1 (extname p)) @ ''\<newline>'' @
       ''Size: '' @ formatFileSize e bytes @ ''\<newline>'' @
       ''Path: '' @ p @ ''\<newline>'' @ ''Modified: '' @ modified @ ''\<newline>'' @ ''\<newline>'' @
       ''This is an image file. I can see the file metadata but cannot directly analyze the image content. If you need image analysis, please describe what you'd like me to help you with regarding this image.'')"
    using Some st by (simp add: getImageMetadata_def Let_def)
  then show ?thesis by (simp only: includesStr_mid)
qed

lemma getImageMetadata_Type:
  "includesStr (getImageMetadata e p) (''Type: '' @ toUpperCase (substring1 (extname p)))"
proof (cases "statSync e p")
  case None
  have "getImageMetadata e p = (''[Image: '' @ basename p @ '']\<newline>'') @
      (''Type: '' @ toUpperCase (substring1 (extname p))) @ (''\<newline>'' @
       ''Path: '' @ p @ ''\<newline>'' @ ''\<newline>'' @
       ''This is an image file. I can reference it in our conversation but cannot directly analyze the image content.'')"
    using None by (simp add: getImageMetadata_def Let_def)
  then show ?thesis by (simp only: includesStr_mid)
next
  case (Some st)
  obtain bytes modified where st: "st = (bytes, modified)" by (cases st)
  have "getImageMetadata e p = (''[Image: '' @ basename p @ '']\<newline>'') @
      (''Type: '' @ toUpperCase (substring1 (extname p))) @ (''\<newline>'' @
       ''Size: '' @ formatFileSize e bytes @ ''\<newline>'' @
       ''Path: '' @ p @ ''\<newline>'' @ ''Modified: '' @ modified @ ''\<newline>'' @ ''\<newline>'' @
       ''This is an image file. I can see the file metadata but cannot directly analyze the image content. If you need image analysis, please describe what you'd like me to help you with regarding this image.'')"
    using Some st by (simp add: getImageMetadata_def Let_def)
  then show ?thesis by (simp only: includesStr_mid)
qed

lemma getImageMetadata_reduced:
  assumes "statSync e p = None"
  shows "includesStr (getImageMetadata e p) (basename p) \<and> includesStr (getImageMetadata e p) p"
proof -
  have 1: "getImageMetadata e p = ''[Image: '' @ basename p @
      ('']\<newline>'' @ ''Type: '' @ toUpperCase (substring1 (extname p)) @ ''\<newline>'' @
       ''Path: '' @ p @ ''\<newline>'' @ ''\<newline>'' @
       ''This is an image file. I can reference it in our conversation but cannot directly analyze the image content.'')"
    using assms by (simp add: getImageMetadata_def Let_def)
  have 2: "getImageMetadata e p = (''[Image: '' @ basename p @
      '']\<newline>'' @ ''Type: '' @ toUpperCase (substring1 (extname p)) @ ''\<newline>'' @
       ''Path: '') @ p @ (''\<newline>'' @ ''\<newline>'' @
       ''This is an image file. I can reference it in our conversation but cannot directly analyze the image content.'')"
    using assms by (simp add: getImageMetadata_def Let_def)
  have "includesStr (getImageMetadata e p) (basename p)"
    by (subst 1) (rule includesStr_mid)
  moreover have "includesStr (getImageMetadata e p) p"
    by (subst 2) (rule includesStr_mid)
  ultimately show ?thesis by blast
qed

text \<open>
  C8. Let a workspace be open and let the path be absolute, or resolve to a full path;
  let the extension of the full path be \<^verbatim>\<open>.png\<close> in any letter case. Then
  \<^verbatim>\<open>readFileContent\<close> of \<^verbatim>\<open>FileManager\<close> returns the metadata summary of the full
  path. The summary contains \<^verbatim>\<open>Image:\<close> and the line \<^verbatim>\<open>Type: PNG\<close>, the extension in
  upper case. The result is the same whatever \<^verbatim>\<open>openTextDocument\<close> would return for any
  path, so the content of the file is never part of it. When \<^verbatim>\<open>fs.statSync\<close> throws,
  the summary still contains the name of the file, its extension and its path.
\<close>

theorem readFileContent_png_summary:
  assumes "workspaceFolders e = Some folders"
      and "(if isAbsolute filePath then Inr filePath else resolveFilePath e filePath) = Inr full"
      and "toLowerCase (extname full) = ''.png''"
  shows "readFileContent e filePath = Inr (getImageMetadata e full) \<and>
         includesStr (getImageMetadata e full) ''Image:'' \<and>
         includesStr (getImageMetadata e full) ''Type: PNG'' \<and>
         toUpperCase (substring1 (extname full)) = ''PNG'' \<and>
         readFileContent (e\<lparr>openTextDocument := document\<rparr>) filePath = readFileContent e filePath \<and>
         (statSync e full = None \<longrightarrow>
            includesStr (getImageMetadata e full) (basename full) \<and>
            includesStr (getImageMetadata e full) full)"
proof -
  have img: "isImageFile full"
    using assms(3) by (simp add: isImageFile_def imageExtensions_def)
  have rd: "readFileContent e' filePath = Inr (getImageMetadata e' full)"
    if "workspaceFolders e' = Some folders"
      and "(if isAbsolute filePath then Inr filePath else resolveFilePath e' filePath) = Inr full"
    for e'
    using that img by (simp add: readFileContent_def readResolved_def)
  let ?e' = "e\<lparr>openTextDocument := document\<rparr>"
  have res: "resolveFilePath ?e' filePath = resolveFilePath e filePath"
    by (simp add: resolveFilePath_def cong: option.case_cong sum.case_cong)
  have size: "formatFileSize ?e' bytes = formatFileSize e bytes" for bytes
    by (simp add: formatFileSize_def)
  have meta: "getImageMetadata ?e' full = getImageMetadata e full"
    by (cases "statSync e full") (auto simp: getImageMetadata_def size)
  have 1: "readFileContent e filePath = Inr (getImageMetadata e full)"
    using assms(1,2) by (rule rd)
  have 2: "readFileContent ?e' filePath = Inr (getImageMetadata ?e' full)"
    using assms(1,2) by (intro rd) (simp_all add: res split: if_splits)
  have up: "toUpperCase (substring1 (extname full)) = ''PNG''"
    using assms(3) by (rule png_upper)
  have ty: "includesStr (getImageMetadata e full) ''Type: PNG''"
    using getImageMetadata_Type [of e full] by (simp add: up)
  show ?thesis
    using 1 2 meta up ty getImageMetadata_Image [of e full] getImageMetadata_reduced [of e full]
    by simp
qed

lemma resolve_logo:
  "(if isAbsolute ''logo.png'' then Inr ''logo.png'' else resolveFilePath demoEnv ''logo.png'')
     = Inr ''/ws/logo.png''"
  by (simp add: resolveFilePath_def demo_eval path_eval)

lemma ext_logo: "toLowerCase (extname ''/ws/logo.png'') = ''.png''"
  by (simp add: path_eval str_eval)

lemma resolve_x:
  "(if isAbsolute ''/ws/x.PNG'' then Inr ''/ws/x.PNG'' else resolveFilePath demoEnv ''/ws/x.PNG'')
     = Inr ''/ws/x.PNG''"
  by (simp add: isAbsolute_def)

lemma ext_x: "toLowerCase (extname ''/ws/x.PNG'') = ''.png''"
  by (simp add: path_eval str_eval)

lemma stat_x: "statSync demoEnv ''/ws/x.PNG'' = None"
  by (simp add: demo_eval)

theorem readFileContent_png_summary_witness:
  "workspaceFolders demoEnv = Some [''/ws''] \<and>
   (if isAbsolute ''logo.png'' then Inr ''logo.png'' else resolveFilePath demoEnv ''logo.png'')
     = Inr ''/ws/logo.png'' \<and>
   toLowerCase (extname ''/ws/logo.png'') = ''.png'' \<and>
   readFileContent demoEnv ''logo.png'' = Inr (getImageMetadata demoEnv ''/ws/logo.png'') \<and>
   toLowerCase (extname ''/ws/x.PNG'') = ''.png'' \<and>
   statSync demoEnv ''/ws/x.PNG'' = None \<and>
   readFileContent demoEnv ''/ws/x.PNG'' = Inr (getImageMetadata demoEnv ''/ws/x.PNG'') \<and>
   includesStr (getImageMetadata demoEnv ''/ws/x.PNG'') ''/ws/x.PNG''"
  using readFileContent_png_summary [OF ws_demo resolve_logo ext_logo]
    readFileContent_png_summary [OF ws_demo resolve_x ext_x]
    ws_demo resolve_logo ext_logo ext_x stat_x
  by simp

section \<open>File sizes\<close>

text \<open>
  The unit of a size is looked up at the index the engine computes: inside the table
  it is one of the four units, past its end the word \<^verbatim>\<open>undefined\<close>.
\<close>

lemma formatFileSize_zero: "formatFileSize e 0 = ''0 Bytes''"
  by (simp add: formatFileSize_def)

lemma formatFileSize_lookup:
  assumes "0 < bytes"
  shows "formatFileSize e bytes =
           numberToString (toFixed2 bytes (logIndex e bytes)) @ '' '' @
           (if logIndex e bytes < 4 then sizes ! logIndex e bytes else ''undefined'')"
  using assms by (simp add: formatFileSize_def Let_def sizes_def)

lemma formatFileSize_demo: "formatFileSize demoEnv 1536 = ''1.5 KB''"
  by (simp add: formatFileSize_def demoEnv_def toFixed2_def numberToString_def Let_def
      sizes_def digitChar_def)

section \<open>Two readers\<close>

text \<open>An image, for the chat panel, is summarised by its name alone.\<close>

lemma panel_readFileContent_image:
  assumes "workspaceFolders e = Some folders"
      and "isAbsolute filePath \<or> folders \<noteq> []"
      and "panel_isImageFile filePath"
  shows "panel_readFileContent e filePath = Inr (''[Image file: '' @ basename filePath @ '']'')"
  using assms by (auto simp: panel_readFileContent_def Let_def)

text \<open>
  C10. For every path whose extension is \<^verbatim>\<open>.webp\<close> or \<^verbatim>\<open>.ico\<close> in any letter case,
  the reader of the chat panel does not take it for an image and the reader of
  \<^verbatim>\<open>FileManager\<close> does. With a workspace open, the panel returns what
  \<^verbatim>\<open>openTextDocument\<close> gives for the path (joined to the first folder when it is
  relative), the text of the file, and \<^verbatim>\<open>FileManager\<close> returns the metadata summary:
  of the path itself when it is absolute, of the resolved path when it is relative and
  resolves to a path with such an extension.
\<close>

theorem image_sets_disagree:
  assumes "toLowerCase (extname filePath) \<in> {''.webp'', ''.ico''}"
  shows "\<not> panel_isImageFile filePath \<and> isImageFile filePath \<and>
         (workspaceFolders e = Some folders \<and> (isAbsolute filePath \<or> folders \<noteq> []) \<longrightarrow>
            panel_readFileContent e filePath =
              openTextDocument e (if isAbsolute filePath then filePath
                                  else join (hd folders) filePath)) \<and>
         (workspaceFolders e = Some folders \<and> isAbsolute filePath \<longrightarrow>
            readFileContent e filePath = Inr (getImageMetadata e filePath)) \<and>
         (workspaceFolders e = Some folders \<and> \<not> isAbsolute filePath \<and>
          resolveFilePath e filePath = Inr full \<and>
          toLowerCase (extname full) \<in> {''.webp'', ''.ico''} \<longrightarrow>
            readFileContent e filePath = Inr (getImageMetadata e full))"
proof -
  have p: "\<not> panel_isImageFile filePath"
    using assms by (auto simp: panel_isImageFile_def)
  have f: "isImageFile filePath"
    using assms by (auto simp: isImageFile_def imageExtensions_def)
  have "panel_readFileContent e filePath =
          openTextDocument e (if isAbsolute filePath then filePath else join (hd folders) filePath)"
    if "workspaceFolders e = Some folders" "isAbsolute filePath \<or> folders \<noteq> []"
    using that p by (auto simp: panel_readFileContent_def Let_def)
  moreover have "readFileContent e filePath = Inr (getImageMetadata e filePath)"
    if "workspaceFolders e = Some folders" "isAbsolute filePath"
    using that f by (simp add: readFileContent_def readResolved_def)
  moreover have "readFileContent e filePath = Inr (getImageMetadata e full)"
    if "workspaceFolders e = Some folders" "\<not> isAbsolute filePath"
       "resolveFilePath e filePath = Inr full"
       "toLowerCase (extname full) \<in> {''.webp'', ''.ico''}"
  proof -
    have "isImageFile full"
      using that(4) by (auto simp: isImageFile_def imageExtensions_def)
    then show ?thesis
      using that(1-3) by (simp add: readFileContent_def readResolved_def)
  qed
  ultimately show ?thesis using p f by blast
qed

lemma ext_icon: "toLowerCase (extname ''/ws/icon.webp'') = ''.webp''"
  by (simp add: path_eval str_eval)

lemma abs_icon: "isAbsolute ''/ws/icon.webp''"
  by (simp add: isAbsolute_def)

lemma open_icon: "openTextDocument demoEnv ''/ws/icon.webp'' = Inr ''RIFF''"
  by (simp add: demo_eval)

theorem image_sets_disagree_witness:
  "toLowerCase (extname ''/ws/icon.webp'') \<in> {''.webp'', ''.ico''} \<and>
   workspaceFolders demoEnv = Some [''/ws''] \<and> isAbsolute ''/ws/icon.webp'' \<and>
   \<not> panel_isImageFile ''/ws/icon.webp'' \<and> isImageFile ''/ws/icon.webp'' \<and>
   panel_readFileContent demoEnv ''/ws/icon.webp'' = Inr ''RIFF'' \<and>
   readFileContent demoEnv ''/ws/icon.webp'' = Inr (getImageMetadata demoEnv ''/ws/icon.webp'')"
proof -
  have h: "toLowerCase (extname ''/ws/icon.webp'') \<in> {''.webp'', ''.ico''}"
    by (simp add: ext_icon)
  from image_sets_disagree [OF h, of demoEnv "[''/ws'']" "''/ws/icon.webp''"]
    h ws_demo abs_icon open_icon
  show ?thesis by simp
qed

end
